theory Spec2Isabelle
  imports Complex_Main "HOL-Library.Multiset"
begin

chapter \<open>Definitions\<close>

section \<open>Errors\<close>

text \<open>
  The scripts run on NumPy, pandas, scikit-learn and NetworkX.  Every exception that one of
  the modelled calls can raise is a value of \<open>py_error\<close>; a computation that may raise
  returns \<open>py_error + 'a\<close>, with \<open>Inl\<close> for the exception.
\<close>

datatype py_error = ValueError | LibraryError

section \<open>Gini coefficient (\<open>dc_combine_analysis.py\<close>, \<open>gini_coefficient\<close>)\<close>

text \<open>
  \<^verbatim>\<open>
  def gini_coefficient(x):
      x = np.asarray(x, dtype=np.float64)
      if np.amin(x) < 0: x -= np.amin(x)
      if np.sum(x) == 0: return 0
      x = np.sort(x)
      n = len(x)
      index = np.arange(1, n + 1)
      return (np.sum((2 * index - n - 1) * x)) / (n * np.sum(x))
  \<close>
  The array is a list of reals: arithmetic is exact, rounding is not modelled.
  \<open>np.amin\<close> of an array of size zero raises \<open>ValueError\<close>.
\<close>

definition amin :: "real list \<Rightarrow> py_error + real" where
  "amin x = (if x = [] then Inl ValueError else Inr (Min (set x)))"

definition arange :: "int \<Rightarrow> int \<Rightarrow> int list" where
  "arange a b = [a..b - 1]"

definition gini_coefficient :: "real list \<Rightarrow> py_error + real" where
  "gini_coefficient x0 =
     (case amin x0 of
        Inl e \<Rightarrow> Inl e
      | Inr lo \<Rightarrow>
          let x1 = (if lo < 0 then map (\<lambda>v. v - lo) x0 else x0) in
          if sum_list x1 = 0 then Inr 0
          else
            let x = sort x1;
                n = int (length x);
                index = arange 1 (n + 1)
            in Inr (sum_list (map2 (\<lambda>i v. real_of_int (2 * i - n - 1) * v) index x)
                      / (real_of_int n * sum_list x)))"



section \<open>The street graph (\<open>networkx.MultiDiGraph\<close>)\<close>

text \<open>
  \<open>G = ox.load_graphml(...)\<close> is a directed multigraph.  \<open>nodes\<close> lists the node ids
  in the graph's iteration order; an edge is (source, target, attributes), and parallel
  edges and self loops are allowed.
\<close>

record ('v, 'a) graph =
  nodes :: "'v list"
  edges :: "('v \<times> 'v \<times> 'a) list"

definition number_of_nodes :: "('v, 'a) graph \<Rightarrow> nat" where
  "number_of_nodes G = length (nodes G)"

definition number_of_edges :: "('v, 'a) graph \<Rightarrow> nat" where
  "number_of_edges G = length (edges G)"

text \<open>
  \<open>G.subgraph(nbunch).copy()\<close>: the nodes of \<open>G\<close> that are in \<open>nbunch\<close> and the edges
  of \<open>G\<close> with both ends in \<open>nbunch\<close>.  The copy lists its nodes in the order in which
  \<open>G\<close> lists them.
\<close>

definition subgraph :: "('v, 'a) graph \<Rightarrow> 'v set \<Rightarrow> ('v, 'a) graph" where
  "subgraph G nbunch =
     \<lparr>nodes = filter (\<lambda>n. n \<in> nbunch) (nodes G),
      edges = filter (\<lambda>(u, w, a). u \<in> nbunch \<and> w \<in> nbunch) (edges G)\<rparr>"

text \<open>
  \<open>nx.weakly_connected_components(G)\<close>: for each node of \<open>G\<close> in iteration order that
  no earlier component holds, a breadth-first search over successors and predecessors
  collects the node's component as a set, and the components are yielded in that order.
  \<^verbatim>\<open>
  seen = set()
  for v in G:
      if v not in seen:
          c = set(_plain_bfs(G, v))
          seen.update(c)
          yield c
  \<close>
\<close>

definition neighbours :: "('v, 'a) graph \<Rightarrow> 'v \<Rightarrow> 'v list" where
  "neighbours G v =
     [w. (u, w, a) \<leftarrow> edges G, u = v] @ [u. (u, w, a) \<leftarrow> edges G, w = v]"

definition endpoints :: "('v, 'a) graph \<Rightarrow> 'v set" where
  "endpoints G = (\<Union>(u, w, a) \<in> set (edges G). {u, w})"

function plain_bfs :: "('v, 'a) graph \<Rightarrow> 'v list \<Rightarrow> 'v set \<Rightarrow> 'v set" where
  "plain_bfs G [] seen = seen"
| "plain_bfs G (v # queue) seen =
     (let new = remdups [w \<leftarrow> neighbours G v. w \<notin> seen]
      in plain_bfs G (queue @ new) (seen \<union> set new))"
  by pat_completeness auto
termination
proof (relation "inv_image (less_than <*lex*> less_than)
                   (\<lambda>(G, queue, seen). (card (endpoints G - seen), length queue))",
       goal_cases)
  case 1
  show ?case by (intro wf_inv_image wf_lex_prod wf_less_than)
next
  case (2 G v queue seen new)
  have fin: "finite (endpoints G - seen)"
    by (simp add: endpoints_def case_prod_beta)
  have sub: "set new \<subseteq> endpoints G - seen"
    using 2 by (auto simp: neighbours_def endpoints_def)
  show ?case
  proof (cases "new = []")
    case True
    then show ?thesis by simp
  next
    case False
    then obtain w where "w \<in> set new" by (cases new) auto
    then have "endpoints G - (seen \<union> set new) \<subset> endpoints G - seen"
      using sub by auto
    then have "card (endpoints G - (seen \<union> set new)) < card (endpoints G - seen)"
      using fin by (rule psubset_card_mono [rotated])
    then show ?thesis by simp
  qed
qed

fun wcc_from :: "('v, 'a) graph \<Rightarrow> 'v list \<Rightarrow> 'v set \<Rightarrow> 'v set list" where
  "wcc_from G [] seen = []"
| "wcc_from G (v # vs) seen =
     (if v \<in> seen then wcc_from G vs seen
      else let c = plain_bfs G [v] {v} in c # wcc_from G vs (seen \<union> c))"

definition weakly_connected_components :: "('v, 'a) graph \<Rightarrow> 'v set list" where
  "weakly_connected_components G = wcc_from G (nodes G) {}"

text \<open>
  \<open>max(iterable, key=len)\<close>: the first item of greatest length; \<open>ValueError\<close> on an
  empty iterable.  The running best is replaced only by a strictly longer item.
\<close>

fun max_key_len :: "'v set list \<Rightarrow> py_error + 'v set" where
  "max_key_len [] = Inl ValueError"
| "max_key_len (c # cs) = Inr (foldl (\<lambda>best d. if card best < card d then d else best) c cs)"

section \<open>The per-tract loop (\<open>dc_combine_analysis.py\<close>, Step 4)\<close>

text \<open>
  \<^verbatim>\<open>
  nodes_within_tract = nodes_gdf[nodes_gdf.within(tract_polygon)]
  if len(nodes_within_tract) < 3:
      results.append({'GEOID': tract_geoid, 'error': 'Not enough nodes'})
      continue
  subgraph = G.subgraph(nodes_within_tract.index).copy()
  if subgraph.number_of_nodes() > 0:
      largest_cc_nodes = max(nx.weakly_connected_components(subgraph), key=len)
      subgraph = subgraph.subgraph(largest_cc_nodes).copy()
  if subgraph.number_of_nodes() < 3 or subgraph.number_of_edges() == 0:
      results.append({'GEOID': tract_geoid, 'error': 'Subgraph not viable'})
      continue
  \<close>
  \<open>nodes_gdf\<close> has one row per node of \<open>G\<close>, in the order of the graph, with the node's
  point as geometry (\<open>point\<close>).  The geometric predicate \<open>within\<close> of GeoPandas is the
  parameter \<open>is_within\<close>.
\<close>

datatype ('v, 'a) clipped = Not_enough_nodes | Subgraph_not_viable | Viable "('v, 'a) graph"

definition nodes_within_tract ::
  "('pt \<Rightarrow> 'poly \<Rightarrow> bool) \<Rightarrow> ('v \<Rightarrow> 'pt) \<Rightarrow> ('v, 'a) graph \<Rightarrow> 'poly \<Rightarrow> 'v list" where
  "nodes_within_tract is_within point G tract_polygon =
     [n \<leftarrow> nodes G. is_within (point n) tract_polygon]"

definition largest_component :: "('v, 'a) graph \<Rightarrow> py_error + ('v, 'a) graph" where
  "largest_component sg =
     (if number_of_nodes sg > 0
      then (case max_key_len (weakly_connected_components sg) of
              Inl e \<Rightarrow> Inl e
            | Inr largest_cc_nodes \<Rightarrow> Inr (subgraph sg largest_cc_nodes))
      else Inr sg)"

definition clip ::
  "('pt \<Rightarrow> 'poly \<Rightarrow> bool) \<Rightarrow> ('v \<Rightarrow> 'pt) \<Rightarrow> ('v, 'a) graph \<Rightarrow> 'poly
     \<Rightarrow> py_error + ('v, 'a) clipped" where
  "clip is_within point G tract_polygon =
     (let nwt = nodes_within_tract is_within point G tract_polygon in
      if length nwt < 3 then Inr Not_enough_nodes
      else (case largest_component (subgraph G (set nwt)) of
              Inl e \<Rightarrow> Inl e
            | Inr sg \<Rightarrow>
                if number_of_nodes sg < 3 \<or> number_of_edges sg = 0
                then Inr Subgraph_not_viable
                else Inr (Viable sg)))"

text \<open>
  The four metrics.  The NetworkX routines are parameters; each may raise.
  \<^verbatim>\<open>
  try:
      temp_undirected_graph = nx.Graph(subgraph)
      metrics['global_permeability'] = nx.global_efficiency(temp_undirected_graph)
  except Exception: metrics['global_permeability'] = None
  try:
      temp_graph = nx.Graph(subgraph)
      metrics['avg_clustering_coeff'] = nx.average_clustering(temp_graph)
  except Exception: metrics['avg_clustering_coeff'] = None
  try: metrics['degree_assortativity'] = nx.degree_assortativity_coefficient(subgraph)
  except Exception: metrics['degree_assortativity'] = None
  try:
      edge_betweenness = nx.edge_betweenness_centrality(subgraph, weight='length')
      metrics['gini_edge_betweenness'] = gini_coefficient(list(edge_betweenness.values()))
  except Exception: metrics['gini_edge_betweenness'] = None
  \<close>
\<close>

record ('v, 'a, 'g) networkx =
  nx_Graph :: "('v, 'a) graph \<Rightarrow> py_error + 'g"
  global_efficiency :: "'g \<Rightarrow> py_error + real"
  average_clustering :: "'g \<Rightarrow> py_error + real"
  degree_assortativity_coefficient :: "('v, 'a) graph \<Rightarrow> py_error + real"
  edge_betweenness_centrality :: "('v, 'a) graph \<Rightarrow> py_error + real list"

record metrics =
  global_permeability :: "real option"
  avg_clustering_coeff :: "real option"
  degree_assortativity :: "real option"
  gini_edge_betweenness :: "real option"

definition and_then :: "py_error + 'b \<Rightarrow> ('b \<Rightarrow> py_error + 'c) \<Rightarrow> py_error + 'c" where
  "and_then r f = (case r of Inl e \<Rightarrow> Inl e | Inr v \<Rightarrow> f v)"

definition try_except :: "py_error + 'b \<Rightarrow> 'b option" where
  "try_except r = (case r of Inl e \<Rightarrow> None | Inr v \<Rightarrow> Some v)"

definition compute_metrics :: "('v, 'a, 'g) networkx \<Rightarrow> ('v, 'a) graph \<Rightarrow> metrics" where
  "compute_metrics nx sg =
     \<lparr>global_permeability = try_except (and_then (nx_Graph nx sg) (global_efficiency nx)),
      avg_clustering_coeff = try_except (and_then (nx_Graph nx sg) (average_clustering nx)),
      degree_assortativity = try_except (degree_assortativity_coefficient nx sg),
      gini_edge_betweenness =
        try_except (and_then (edge_betweenness_centrality nx sg) gini_coefficient)\<rparr>"

text \<open>One iteration of the loop: what is appended to \<open>results\<close> for a tract.\<close>

datatype 'id result = Error_row 'id string | Metrics_row 'id metrics

definition process_tract ::
  "('v, 'a, 'g) networkx \<Rightarrow> ('pt \<Rightarrow> 'poly \<Rightarrow> bool) \<Rightarrow> ('v \<Rightarrow> 'pt) \<Rightarrow> ('v, 'a) graph
     \<Rightarrow> 'id \<times> 'poly \<Rightarrow> py_error + 'id result" where
  "process_tract nx is_within point G tract =
     (let tract_geoid = fst tract; tract_polygon = snd tract in
      case clip is_within point G tract_polygon of
        Inl e \<Rightarrow> Inl e
      | Inr Not_enough_nodes \<Rightarrow> Inr (Error_row tract_geoid ''Not enough nodes'')
      | Inr Subgraph_not_viable \<Rightarrow> Inr (Error_row tract_geoid ''Subgraph not viable'')
      | Inr (Viable sg) \<Rightarrow> Inr (Metrics_row tract_geoid (compute_metrics nx sg)))"

text \<open>
  Step 5: \<open>results_df = pd.DataFrame(results)\<close> and the left merge onto the tracts.  A
  row of \<open>dc_utri_analysis.csv\<close> has the tract's income and the four metric columns; a
  key that a result dictionary does not have is an empty cell.
\<close>

record 'id csv_row =
  GEOID :: 'id
  Median_Household_Income :: "real option"
  csv_global_permeability :: "real option"
  csv_avg_clustering_coeff :: "real option"
  csv_degree_assortativity :: "real option"
  csv_gini_edge_betweenness :: "real option"

fun final_output_row :: "real option \<Rightarrow> 'id result \<Rightarrow> 'id csv_row" where
  "final_output_row income (Error_row g e) =
     \<lparr>GEOID = g, Median_Household_Income = income,
      csv_global_permeability = None, csv_avg_clustering_coeff = None,
      csv_degree_assortativity = None, csv_gini_edge_betweenness = None\<rparr>"
| "final_output_row income (Metrics_row g m) =
     \<lparr>GEOID = g, Median_Household_Income = income,
      csv_global_permeability = global_permeability m,
      csv_avg_clustering_coeff = avg_clustering_coeff m,
      csv_degree_assortativity = degree_assortativity m,
      csv_gini_edge_betweenness = gini_edge_betweenness m\<rparr>"


definition adjacent :: "('v, 'a) graph \<Rightarrow> ('v \<times> 'v) set" where
  "adjacent G = {(u, w). \<exists>a. (u, w, a) \<in> set (edges G) \<or> (w, u, a) \<in> set (edges G)}"

definition component :: "('v, 'a) graph \<Rightarrow> 'v \<Rightarrow> 'v set" where
  "component G v = (adjacent G)\<^sup>* `` {v}"

section \<open>Floating-point values\<close>

text \<open>
  The analysis script computes on NumPy and pandas floats.  A float is a real number, an
  infinity or NaN; arithmetic on real numbers is exact (rounding is not modelled, and the
  two zeros are not told apart), and the special values follow IEEE 754: a non-zero
  number over zero is an infinity, zero over zero is NaN, zero times an infinity is NaN,
  the logarithm of zero is minus infinity, and NaN propagates.
\<close>

datatype fl = Fin real | PInf | NInf | NaN

fun fneg :: "fl \<Rightarrow> fl" where
  "fneg (Fin a) = Fin (- a)"
| "fneg PInf = NInf"
| "fneg NInf = PInf"
| "fneg NaN = NaN"

fun fadd :: "fl \<Rightarrow> fl \<Rightarrow> fl" where
  "fadd NaN y = NaN"
| "fadd x NaN = NaN"
| "fadd (Fin a) (Fin b) = Fin (a + b)"
| "fadd PInf NInf = NaN"
| "fadd NInf PInf = NaN"
| "fadd PInf y = PInf"
| "fadd NInf y = NInf"
| "fadd (Fin a) y = y"

definition fsub :: "fl \<Rightarrow> fl \<Rightarrow> fl" where
  "fsub x y = fadd x (fneg y)"

definition signed_inf :: "bool \<Rightarrow> fl" where
  "signed_inf positive = (if positive then PInf else NInf)"

fun fmul :: "fl \<Rightarrow> fl \<Rightarrow> fl" where
  "fmul NaN y = NaN"
| "fmul x NaN = NaN"
| "fmul (Fin a) (Fin b) = Fin (a * b)"
| "fmul (Fin a) PInf = (if a = 0 then NaN else signed_inf (0 < a))"
| "fmul (Fin a) NInf = (if a = 0 then NaN else signed_inf (a < 0))"
| "fmul PInf (Fin b) = (if b = 0 then NaN else signed_inf (0 < b))"
| "fmul NInf (Fin b) = (if b = 0 then NaN else signed_inf (b < 0))"
| "fmul PInf PInf = PInf"
| "fmul NInf NInf = PInf"
| "fmul PInf NInf = NInf"
| "fmul NInf PInf = NInf"

fun fdiv :: "fl \<Rightarrow> fl \<Rightarrow> fl" where
  "fdiv NaN y = NaN"
| "fdiv x NaN = NaN"
| "fdiv (Fin a) (Fin b) =
     (if b \<noteq> 0 then Fin (a / b) else if a = 0 then NaN else signed_inf (0 < a))"
| "fdiv (Fin a) y = Fin 0"
| "fdiv PInf (Fin b) = signed_inf (0 \<le> b)"
| "fdiv NInf (Fin b) = signed_inf (b < 0)"
| "fdiv x y = NaN"

fun flog :: "fl \<Rightarrow> fl" where
  "flog (Fin a) = (if 0 < a then Fin (ln a) else if a = 0 then NInf else NaN)"
| "flog PInf = PInf"
| "flog NInf = NaN"
| "flog NaN = NaN"

text \<open>\<open>np.sum\<close> of an array: NaN propagates.\<close>

definition np_sum :: "fl list \<Rightarrow> fl" where
  "np_sum xs = foldl fadd (Fin 0) xs"

text \<open>\<open>Series.sum()\<close> of pandas: NaN entries are skipped (\<open>skipna=True\<close>).\<close>

definition series_sum :: "fl list \<Rightarrow> fl" where
  "series_sum xs = np_sum [x \<leftarrow> xs. x \<noteq> NaN]"

text \<open>\<open>Series.replace([np.inf, -np.inf], 0)\<close>.\<close>

fun replace_inf :: "fl \<Rightarrow> fl" where
  "replace_inf PInf = Fin 0"
| "replace_inf NInf = Fin 0"
| "replace_inf x = x"

section \<open>TRVI construction (\<open>DC_TRVI_Spatial_Analysis.py\<close>)\<close>

text \<open>
  \<^verbatim>\<open>
  df = pd.read_csv('dc_utri_analysis.csv')
  df_clean = df.dropna(subset=['global_permeability', 'avg_clustering_coeff',
      'degree_assortativity', 'gini_edge_betweenness', 'Median_Household_Income'])
  \<close>
  A row of \<open>df\<close> is a \<open>csv_row\<close>, an empty cell being \<open>None\<close>.  A row of \<open>df_clean\<close>
  has a number in each of the five columns.
\<close>

record 'id clean_row =
  row_GEOID :: 'id
  row_income :: real
  row_permeability :: real
  row_clustering :: real
  row_assortativity :: real
  row_gini :: real

definition complete_case :: "'id csv_row \<Rightarrow> 'id clean_row option" where
  "complete_case r =
     (case (csv_global_permeability r, csv_avg_clustering_coeff r, csv_degree_assortativity r,
            csv_gini_edge_betweenness r, Median_Household_Income r) of
        (Some gp, Some cc, Some da, Some ge, Some mhi) \<Rightarrow>
          Some \<lparr>row_GEOID = GEOID r, row_income = mhi, row_permeability = gp,
                row_clustering = cc, row_assortativity = da, row_gini = ge\<rparr>
      | _ \<Rightarrow> None)"

definition dropna :: "'id csv_row list \<Rightarrow> 'id clean_row list" where
  "dropna df = List.map_filter complete_case df"

text \<open>
  \<open>MinMaxScaler().fit_transform\<close> on one column: \<open>X * scale_ + min_\<close> with
  \<open>scale_ = 1 / data_range\<close>, a zero range being replaced by 1, and
  \<open>min_ = 0 - data_min * scale_\<close>; \<open>ValueError\<close> on a column without rows.
\<close>

definition minmax_fit_transform :: "real list \<Rightarrow> py_error + real list" where
  "minmax_fit_transform xs =
     (if xs = [] then Inl ValueError
      else
        let data_min = Min (set xs);
            data_range = Max (set xs) - data_min;
            scale = 1 / (if data_range = 0 then 1 else data_range);
            min0 = 0 - data_min * scale
        in Inr (map (\<lambda>x. x * scale + min0) xs))"

text \<open>
  \<^verbatim>\<open>
  df_processed['global_permeability'] = scaler_minmax.fit_transform(...)
  df_processed['avg_clustering_coeff'] = 1 - scaler_minmax.fit_transform(...)
  df_processed['degree_assortativity'] = 1 - scaler_minmax.fit_transform(...)
  df_processed['gini_edge_betweenness'] = 1 - scaler_minmax.fit_transform(...)
  \<close>
  \<open>df_processed\<close> is the list of its four columns, in the order of \<open>indicator_cols\<close>.
\<close>

definition df_processed :: "'id clean_row list \<Rightarrow> py_error + real list list" where
  "df_processed df_clean =
     and_then (minmax_fit_transform (map row_permeability df_clean)) (\<lambda>gp.
     and_then (minmax_fit_transform (map row_clustering df_clean)) (\<lambda>cc.
     and_then (minmax_fit_transform (map row_assortativity df_clean)) (\<lambda>da.
     and_then (minmax_fit_transform (map row_gini df_clean)) (\<lambda>ge.
       Inr [gp, map (\<lambda>x. 1 - x) cc, map (\<lambda>x. 1 - x) da, map (\<lambda>x. 1 - x) ge]))))"

text \<open>
  \<^verbatim>\<open>
  m, n = df_processed.shape[0], len(indicator_cols)
  k = 1 / np.log(m)
  entropy = [-k * ( (df_processed[col] / df_processed[col].sum())
                    * np.log(df_processed[col] / df_processed[col].sum())
                        .replace([np.inf, -np.inf], 0) ).sum() for col in indicator_cols]
  d = 1 - np.array(entropy)
  weights_ewm = d / d.sum()
  \<close>
\<close>

definition entropy_of :: "nat \<Rightarrow> real list \<Rightarrow> fl" where
  "entropy_of m col =
     (let k = fdiv (Fin 1) (flog (Fin (real m)));
          total = Fin (sum_list col);
          p = map (\<lambda>x. fdiv (Fin x) total) col;
          logp = map (\<lambda>x. replace_inf (flog x)) p
      in fmul (fneg k) (series_sum (map2 fmul p logp)))"

definition weights_of :: "nat \<Rightarrow> real list list \<Rightarrow> fl list" where
  "weights_of m cols =
     (let entropy = map (entropy_of m) cols;
          d = map (\<lambda>e. fsub (Fin 1) e) entropy
      in map (\<lambda>x. fdiv x (np_sum d)) d)"

definition weights_ewm :: "'id clean_row list \<Rightarrow> py_error + fl list" where
  "weights_ewm df_clean =
     and_then (df_processed df_clean) (\<lambda>cols. Inr (weights_of (length df_clean) cols))"

text \<open>
  \<^verbatim>\<open>
  df_analysis_subset['UTRI_physical'] = (
      w_physical['global_permeability'] * df_processed['global_permeability'] +
      w_physical['avg_clustering_coeff'] * df_processed['avg_clustering_coeff'] +
      w_physical['degree_assortativity'] * df_processed['degree_assortativity'] +
      w_physical['gini_edge_betweenness'] * df_processed['gini_edge_betweenness'])
  \<close>
\<close>

fun row_sum :: "fl list \<Rightarrow> fl" where
  "row_sum [] = Fin 0"
| "row_sum [x] = x"
| "row_sum (x # y # zs) = row_sum (fadd x y # zs)"

definition UTRI_physical :: "fl list \<Rightarrow> real list list \<Rightarrow> nat \<Rightarrow> fl list" where
  "UTRI_physical w cols m =
     map (\<lambda>i. row_sum (map2 (\<lambda>wc col. fmul wc (Fin (col ! i))) w cols)) [0..<m]"

text \<open>
  \<open>StandardScaler().fit_transform\<close> on one column: mean and population variance over the
  entries that are not NaN, \<open>scale_ = sqrt(var_)\<close> with a zero replaced by 1, and
  \<open>(x - mean_) / scale_\<close>; a NaN entry stays NaN.  An infinite entry, or a column without
  rows, raises \<open>ValueError\<close>.
\<close>

fun finite_values :: "fl list \<Rightarrow> real list" where
  "finite_values [] = []"
| "finite_values (Fin a # xs) = a # finite_values xs"
| "finite_values (x # xs) = finite_values xs"

definition mean :: "real list \<Rightarrow> real" where
  "mean xs = sum_list xs / real (length xs)"

definition variance :: "real list \<Rightarrow> real" where
  "variance xs = sum_list (map (\<lambda>x. (x - mean xs)\<^sup>2) xs) / real (length xs)"

definition standard_fit_transform :: "fl list \<Rightarrow> py_error + fl list" where
  "standard_fit_transform xs =
     (if xs = [] \<or> PInf \<in> set xs \<or> NInf \<in> set xs then Inl ValueError
      else if finite_values xs = [] then Inr xs
      else
        let mean0 = mean (finite_values xs);
            sd = sqrt (variance (finite_values xs));
            scale0 = (if sd = 0 then 1 else sd)
        in Inr (map (\<lambda>x. fdiv (fsub x (Fin mean0)) (Fin scale0)) xs))"

text \<open>
  \<^verbatim>\<open>
  scaled_data = scaler_z.fit_transform(
      df_analysis_subset[['Median_Household_Income', 'UTRI_physical']])
  df_scaled['TRVI'] = (-df_scaled['MHI_Z'] + -df_scaled['UTRI_physical_Z'])
  df_final = df_clean.join(df_scaled[['TRVI']])
  \<close>
  \<open>TRVI_of\<close> is the last formula on the two columns; \<open>df_final\<close> pairs each row of
  \<open>df_clean\<close> with its TRVI.
\<close>

definition TRVI_of :: "real list \<Rightarrow> fl list \<Rightarrow> py_error + fl list" where
  "TRVI_of mhi utri =
     and_then (standard_fit_transform (map Fin mhi)) (\<lambda>MHI_Z.
     and_then (standard_fit_transform utri) (\<lambda>UTRI_physical_Z.
       Inr (map2 (\<lambda>a b. fadd (fneg a) (fneg b)) MHI_Z UTRI_physical_Z)))"

definition UTRI_physical_column :: "'id clean_row list \<Rightarrow> py_error + fl list" where
  "UTRI_physical_column df_clean =
     and_then (df_processed df_clean) (\<lambda>cols.
       Inr (UTRI_physical (weights_of (length df_clean) cols) cols (length df_clean)))"

definition df_final :: "'id csv_row list \<Rightarrow> py_error + ('id clean_row \<times> fl) list" where
  "df_final df =
     (let df_clean = dropna df in
      and_then (UTRI_physical_column df_clean) (\<lambda>utri.
      and_then (TRVI_of (map row_income df_clean) utri) (\<lambda>trvi.
        Inr (zip df_clean trvi))))"


section \<open>Global Moran's I (\<open>DC_TRVI_Spatial_Analysis.py\<close>, part 4)\<close>

text \<open>
  \<^verbatim>\<open>
  gdf_analysis = gdf_tracts.merge(df_final, on='GEOID', how='inner')
  weights = Queen.from_dataframe(gdf_analysis, use_index=True)
  weights.transform = 'r'
  moran_results = {}
  for col in ['Median_Household_Income', 'global_permeability', 'avg_clustering_coeff',
              'degree_assortativity', 'gini_edge_betweenness', 'TRVI']:
      if gdf_analysis[col].isnull().any():
          print(f"Warning: NaN values found in column '{col}', skipping ...")
          continue
      moran = Moran(gdf_analysis[col], weights)
      moran_results[col] = {'Moran_I': moran.I, 'p_value': moran.p_sim}
  \<close>
  \<open>gdf_tracts\<close> is the list of the tracts of the shapefile, by GEOID.  The contiguity
  weights (\<open>queen\<close>, from the tracts of the merged table) and the statistic with its
  permutation test (\<open>moran\<close>) are library routines, and parameters here.
\<close>

definition merge_inner ::
  "'id list \<Rightarrow> ('id clean_row \<times> fl) list \<Rightarrow> ('id clean_row \<times> fl) list" where
  "merge_inner gdf_tracts rows =
     concat (map (\<lambda>g. [r \<leftarrow> rows. row_GEOID (fst r) = g]) gdf_tracts)"

definition moran_columns :: "(string \<times> ('id clean_row \<times> fl \<Rightarrow> fl)) list" where
  "moran_columns =
     [(''Median_Household_Income'', \<lambda>r. Fin (row_income (fst r))),
      (''global_permeability'', \<lambda>r. Fin (row_permeability (fst r))),
      (''avg_clustering_coeff'', \<lambda>r. Fin (row_clustering (fst r))),
      (''degree_assortativity'', \<lambda>r. Fin (row_assortativity (fst r))),
      (''gini_edge_betweenness'', \<lambda>r. Fin (row_gini (fst r))),
      (''TRVI'', snd)]"

fun isnull :: "fl \<Rightarrow> bool" where
  "isnull NaN = True"
| "isnull x = False"

definition moran_results ::
  "(fl list \<Rightarrow> 'w \<Rightarrow> 'res) \<Rightarrow> 'w \<Rightarrow> ('id clean_row \<times> fl) list \<Rightarrow> (string \<times> 'res) list" where
  "moran_results moran weights gdf_analysis =
     [(name, moran (map col gdf_analysis) weights).
        (name, col) \<leftarrow> moran_columns, \<not> list_ex isnull (map col gdf_analysis)]"

definition spatial_analysis ::
  "(fl list \<Rightarrow> 'w \<Rightarrow> 'res) \<Rightarrow> ('id list \<Rightarrow> 'w) \<Rightarrow> 'id list \<Rightarrow> 'id csv_row list
     \<Rightarrow> py_error + (string \<times> 'res) list" where
  "spatial_analysis moran queen gdf_tracts df =
     and_then (df_final df) (\<lambda>rows.
       let gdf_analysis = merge_inner gdf_tracts rows;
           weights = queen (map (\<lambda>r. row_GEOID (fst r)) gdf_analysis)
       in Inr (moran_results moran weights gdf_analysis))"

section \<open>Example inputs\<close>

text \<open>
  Two disjoint triangles on the nodes 1 to 6, and a library whose clustering routine
  raises.  Points are numbers; \<open>below\<close> selects the points under a bound, \<open>between\<close>
  the points strictly inside an interval, whose boundary is its two ends.
\<close>

definition two_triangles :: "(nat, unit) graph" where
  "two_triangles =
     \<lparr>nodes = [1, 2, 3, 4, 5, 6],
      edges = [(1, 2, ()), (2, 3, ()), (3, 1, ()), (4, 5, ()), (5, 6, ()), (6, 4, ())]\<rparr>"

definition no_library :: "(nat, unit, unit) networkx" where
  "no_library =
     \<lparr>nx_Graph = (\<lambda>g. Inr ()), global_efficiency = (\<lambda>g. Inr 1),
      average_clustering = (\<lambda>g. Inl LibraryError),
      degree_assortativity_coefficient = (\<lambda>g. Inr 0),
      edge_betweenness_centrality = (\<lambda>g. Inr [1, 1, 1])\<rparr>"

definition below :: "nat \<Rightarrow> nat \<Rightarrow> bool" where
  "below p bound \<longleftrightarrow> p < bound"





text \<open>
  A table as read from \<open>dc_utri_analysis.csv\<close>: tracts 1 and 2 are complete and have the
  same metrics, tract 3 has metrics but no income.
\<close>

definition three_tracts :: "int csv_row list" where
  "three_tracts =
     [\<lparr>GEOID = 1, Median_Household_Income = Some 30000,
       csv_global_permeability = Some (1 / 2), csv_avg_clustering_coeff = Some (1 / 4),
       csv_degree_assortativity = Some 0, csv_gini_edge_betweenness = Some (1 / 3)\<rparr>,
      \<lparr>GEOID = 2, Median_Household_Income = Some 50000,
       csv_global_permeability = Some (1 / 2), csv_avg_clustering_coeff = Some (1 / 4),
       csv_degree_assortativity = Some 0, csv_gini_edge_betweenness = Some (1 / 3)\<rparr>,
      \<lparr>GEOID = 3, Median_Household_Income = None,
       csv_global_permeability = Some (3 / 4), csv_avg_clustering_coeff = Some (1 / 8),
       csv_degree_assortativity = Some 1, csv_gini_edge_betweenness = Some (2 / 3)\<rparr>]"

chapter \<open>Theorems\<close>

section \<open>Properties of the Gini coefficient\<close>

















section \<open>Properties of the clipping\<close>

text \<open>The breadth-first search from a node returns the node's weakly connected component.\<close>


lemma set_neighbours: "set (neighbours G v) = adjacent G `` {v}"
  by (auto simp: neighbours_def adjacent_def)

lemma plain_bfs_sound:
  assumes "seen \<subseteq> C" and "set queue \<subseteq> C" and "adjacent G `` C \<subseteq> C"
  shows "plain_bfs G queue seen \<subseteq> C"
  using assms
proof (induction G queue seen rule: plain_bfs.induct)
  case (1 G seen)
  then show ?case by simp
next
  case (2 G v queue seen)
  define new where "new = remdups [w \<leftarrow> neighbours G v. w \<notin> seen]"
  have "set new \<subseteq> adjacent G `` {v}" by (auto simp: new_def set_neighbours)
  also have "\<dots> \<subseteq> C" using "2.prems" by auto
  finally have new: "set new \<subseteq> C" .
  have "plain_bfs G (queue @ new) (seen \<union> set new) \<subseteq> C"
    using "2.prems" new by (intro "2.IH" [OF new_def]) auto
  then show ?case by (simp add: new_def Let_def)
qed

lemma plain_bfs_closed:
  assumes "set queue \<subseteq> seen" and "adjacent G `` (seen - set queue) \<subseteq> seen"
  shows "seen \<subseteq> plain_bfs G queue seen \<and>
         adjacent G `` plain_bfs G queue seen \<subseteq> plain_bfs G queue seen"
  using assms
proof (induction G queue seen rule: plain_bfs.induct)
  case (1 G seen)
  then show ?case by simp
next
  case (2 G v queue seen)
  define new where "new = remdups [w \<leftarrow> neighbours G v. w \<notin> seen]"
  have nv: "adjacent G `` {v} \<subseteq> seen \<union> set new"
    by (auto simp: new_def set_neighbours [symmetric])
  have a: "set (queue @ new) \<subseteq> seen \<union> set new" using "2.prems" by auto
  have b: "adjacent G `` ((seen \<union> set new) - set (queue @ new)) \<subseteq> seen \<union> set new"
  proof
    fix y assume "y \<in> adjacent G `` ((seen \<union> set new) - set (queue @ new))"
    then obtain x where x: "x \<in> seen" "x \<notin> set queue" "(x, y) \<in> adjacent G" by auto
    show "y \<in> seen \<union> set new"
    proof (cases "x = v")
      case True
      then show ?thesis using x nv by auto
    next
      case False
      then have "x \<in> seen - set (v # queue)" using x by simp
      then have "y \<in> seen" using "2.prems"(2) x(3) by blast
      then show ?thesis by simp
    qed
  qed
  have "seen \<union> set new \<subseteq> plain_bfs G (queue @ new) (seen \<union> set new) \<and>
        adjacent G `` plain_bfs G (queue @ new) (seen \<union> set new)
          \<subseteq> plain_bfs G (queue @ new) (seen \<union> set new)"
    using a b by (rule "2.IH" [OF new_def])
  then show ?case by (simp add: new_def Let_def)
qed

lemma component_closed: "adjacent G `` component G v \<subseteq> component G v"
  by (auto simp: component_def intro: rtrancl_into_rtrancl)

lemma plain_bfs_component: "plain_bfs G [v] {v} = component G v"
proof
  show "plain_bfs G [v] {v} \<subseteq> component G v"
  proof (rule plain_bfs_sound)
    show "{v} \<subseteq> component G v" by (simp add: component_def)
    then show "set [v] \<subseteq> component G v" by simp
    show "adjacent G `` component G v \<subseteq> component G v" by (rule component_closed)
  qed
next
  have c: "{v} \<subseteq> plain_bfs G [v] {v} \<and>
           adjacent G `` plain_bfs G [v] {v} \<subseteq> plain_bfs G [v] {v}"
    by (rule plain_bfs_closed) auto
  then have "(adjacent G)\<^sup>* `` plain_bfs G [v] {v} = plain_bfs G [v] {v}"
    by (intro Image_closed_trancl) simp
  then show "component G v \<subseteq> plain_bfs G [v] {v}"
    using c unfolding component_def by blast
qed





lemma wcc_from_Cons:
  "wcc_from G (v # vs) seen =
     (if v \<in> seen then wcc_from G vs seen
      else component G v # wcc_from G vs (seen \<union> component G v))"
  by (simp only: wcc_from.simps plain_bfs_component Let_def)

declare wcc_from.simps(2) [simp del]











lemma largest_component_total: "\<exists>red. largest_component sg = Inr red"
proof (cases "nodes sg")
  case Nil
  then show ?thesis by (simp add: largest_component_def number_of_nodes_def)
next
  case (Cons x xs)
  then have "weakly_connected_components sg \<noteq> []"
    by (simp add: weakly_connected_components_def wcc_from_Cons)
  then obtain c cs where "weakly_connected_components sg = c # cs"
    by (cases "weakly_connected_components sg") auto
  then show ?thesis by (simp add: largest_component_def)
qed

text \<open>
  Claim C2.  The clipping reports too few nodes exactly when fewer than 3 nodes of the
  graph lie within the tract's polygon; otherwise it reports a non-viable subgraph
  exactly when the subgraph kept after the reduction to the largest component has fewer
  than 3 nodes or no edge, and is viable exactly when it has neither; a tract whose
  clipping is not viable gets an error row, whose four metric columns are empty.
\<close>

theorem clip_status:
  "(clip is_within point G poly = Inr Not_enough_nodes
      \<longleftrightarrow> length (nodes_within_tract is_within point G poly) < 3) \<and>
   (\<not> length (nodes_within_tract is_within point G poly) < 3 \<longrightarrow>
      (\<exists>red. largest_component (subgraph G (set (nodes_within_tract is_within point G poly))) = Inr red \<and>
         (clip is_within point G poly = Inr Subgraph_not_viable
            \<longleftrightarrow> number_of_nodes red < 3 \<or> number_of_edges red = 0) \<and>
         (clip is_within point G poly = Inr (Viable red)
            \<longleftrightarrow> \<not> (number_of_nodes red < 3 \<or> number_of_edges red = 0)))) \<and>
   ((\<forall>sg. clip is_within point G poly \<noteq> Inr (Viable sg)) \<longrightarrow>
      (\<exists>e. process_tract nx is_within point G (geoid, poly) = Inr (Error_row geoid e) \<and>
           final_output_row income (Error_row geoid e) =
             \<lparr>GEOID = geoid, Median_Household_Income = income,
              csv_global_permeability = None, csv_avg_clustering_coeff = None,
              csv_degree_assortativity = None, csv_gini_edge_betweenness = None\<rparr>))"
proof -
  obtain red where
    red: "largest_component (subgraph G (set (nodes_within_tract is_within point G poly))) = Inr red"
    using largest_component_total by blast
  have a: "clip is_within point G poly =
      (if length (nodes_within_tract is_within point G poly) < 3 then Inr Not_enough_nodes
       else if number_of_nodes red < 3 \<or> number_of_edges red = 0 then Inr Subgraph_not_viable
       else Inr (Viable red))"
    by (simp add: clip_def Let_def red)
  have 1: "clip is_within point G poly = Inr Not_enough_nodes
      \<longleftrightarrow> length (nodes_within_tract is_within point G poly) < 3"
    by (simp add: a)
  have 2: "\<not> length (nodes_within_tract is_within point G poly) < 3 \<longrightarrow>
      (\<exists>red. largest_component (subgraph G (set (nodes_within_tract is_within point G poly))) = Inr red \<and>
         (clip is_within point G poly = Inr Subgraph_not_viable
            \<longleftrightarrow> number_of_nodes red < 3 \<or> number_of_edges red = 0) \<and>
         (clip is_within point G poly = Inr (Viable red)
            \<longleftrightarrow> \<not> (number_of_nodes red < 3 \<or> number_of_edges red = 0)))"
    using red by (auto simp: a)
  have 3: "(\<forall>sg. clip is_within point G poly \<noteq> Inr (Viable sg)) \<longrightarrow>
      (\<exists>e. process_tract nx is_within point G (geoid, poly) = Inr (Error_row geoid e) \<and>
           final_output_row income (Error_row geoid e) =
             \<lparr>GEOID = geoid, Median_Household_Income = income,
              csv_global_permeability = None, csv_avg_clustering_coeff = None,
              csv_degree_assortativity = None, csv_gini_edge_betweenness = None\<rparr>)"
    by (auto simp: a process_tract_def split: if_splits)
  show ?thesis using 1 2 3 by blast
qed

theorem clip_status_witness:
  "\<not> length (nodes_within_tract below id two_triangles 4) < 3 \<and>
   (\<exists>red. largest_component
            (subgraph two_triangles (set (nodes_within_tract below id two_triangles 4)))
            = Inr red \<and>
          clip below id two_triangles 4 = Inr (Viable red)) \<and>
   clip below id two_triangles 2 = Inr Not_enough_nodes \<and>
   (\<exists>e. process_tract no_library below id two_triangles (7 :: nat, 2)
          = Inr (Error_row 7 e))"
proof -
  have a: "\<not> length (nodes_within_tract below id two_triangles 4) < 3"
    by (simp add: nodes_within_tract_def two_triangles_def below_def)
  have b: "length (nodes_within_tract below id two_triangles 2) < 3"
    by (simp add: nodes_within_tract_def two_triangles_def below_def)
  have c: "clip below id two_triangles 4 = Inr (Viable (subgraph two_triangles {1, 2, 3}))"
    by code_simp
  from clip_status [of below id two_triangles 4 no_library "7 :: nat" None] a c
  have 1: "\<exists>red. largest_component
            (subgraph two_triangles (set (nodes_within_tract below id two_triangles 4)))
            = Inr red \<and>
          clip below id two_triangles 4 = Inr (Viable red)"
    by (metis clipped.distinct(5) sum.inject(2))
  from clip_status [of below id two_triangles 2 no_library "7 :: nat" None] b
  have 2: "clip below id two_triangles 2 = Inr Not_enough_nodes \<and>
           (\<exists>e. process_tract no_library below id two_triangles (7 :: nat, 2)
              = Inr (Error_row 7 e))"
    by auto
  from a 1 2 show ?thesis by blast
qed







text \<open>
  Claim C4.  Each of the four metric fields is empty exactly when its own computation
  raises and holds the computed value exactly when it returns one, so no number stands in
  for a failure; and replacing any one of the four NetworkX routines, by one that raises
  for instance, changes none of the other three fields.
\<close>

theorem compute_metrics_guarded:
  "(global_permeability (compute_metrics nx sg) = None
      \<longleftrightarrow> (\<exists>e. and_then (nx_Graph nx sg) (global_efficiency nx) = Inl e)) \<and>
   (\<forall>v. global_permeability (compute_metrics nx sg) = Some v
      \<longleftrightarrow> and_then (nx_Graph nx sg) (global_efficiency nx) = Inr v) \<and>
   (avg_clustering_coeff (compute_metrics nx sg) = None
      \<longleftrightarrow> (\<exists>e. and_then (nx_Graph nx sg) (average_clustering nx) = Inl e)) \<and>
   (\<forall>v. avg_clustering_coeff (compute_metrics nx sg) = Some v
      \<longleftrightarrow> and_then (nx_Graph nx sg) (average_clustering nx) = Inr v) \<and>
   (degree_assortativity (compute_metrics nx sg) = None
      \<longleftrightarrow> (\<exists>e. degree_assortativity_coefficient nx sg = Inl e)) \<and>
   (\<forall>v. degree_assortativity (compute_metrics nx sg) = Some v
      \<longleftrightarrow> degree_assortativity_coefficient nx sg = Inr v) \<and>
   (gini_edge_betweenness (compute_metrics nx sg) = None
      \<longleftrightarrow> (\<exists>e. and_then (edge_betweenness_centrality nx sg) gini_coefficient = Inl e)) \<and>
   (\<forall>v. gini_edge_betweenness (compute_metrics nx sg) = Some v
      \<longleftrightarrow> and_then (edge_betweenness_centrality nx sg) gini_coefficient = Inr v) \<and>
   (\<forall>f. avg_clustering_coeff (compute_metrics (nx\<lparr>global_efficiency := f\<rparr>) sg)
            = avg_clustering_coeff (compute_metrics nx sg) \<and>
        degree_assortativity (compute_metrics (nx\<lparr>global_efficiency := f\<rparr>) sg)
            = degree_assortativity (compute_metrics nx sg) \<and>
        gini_edge_betweenness (compute_metrics (nx\<lparr>global_efficiency := f\<rparr>) sg)
            = gini_edge_betweenness (compute_metrics nx sg)) \<and>
   (\<forall>f. global_permeability (compute_metrics (nx\<lparr>average_clustering := f\<rparr>) sg)
            = global_permeability (compute_metrics nx sg) \<and>
        degree_assortativity (compute_metrics (nx\<lparr>average_clustering := f\<rparr>) sg)
            = degree_assortativity (compute_metrics nx sg) \<and>
        gini_edge_betweenness (compute_metrics (nx\<lparr>average_clustering := f\<rparr>) sg)
            = gini_edge_betweenness (compute_metrics nx sg)) \<and>
   (\<forall>f. global_permeability (compute_metrics (nx\<lparr>degree_assortativity_coefficient := f\<rparr>) sg)
            = global_permeability (compute_metrics nx sg) \<and>
        avg_clustering_coeff (compute_metrics (nx\<lparr>degree_assortativity_coefficient := f\<rparr>) sg)
            = avg_clustering_coeff (compute_metrics nx sg) \<and>
        gini_edge_betweenness (compute_metrics (nx\<lparr>degree_assortativity_coefficient := f\<rparr>) sg)
            = gini_edge_betweenness (compute_metrics nx sg)) \<and>
   (\<forall>f. global_permeability (compute_metrics (nx\<lparr>edge_betweenness_centrality := f\<rparr>) sg)
            = global_permeability (compute_metrics nx sg) \<and>
        avg_clustering_coeff (compute_metrics (nx\<lparr>edge_betweenness_centrality := f\<rparr>) sg)
            = avg_clustering_coeff (compute_metrics nx sg) \<and>
        degree_assortativity (compute_metrics (nx\<lparr>edge_betweenness_centrality := f\<rparr>) sg)
            = degree_assortativity (compute_metrics nx sg))"
  by (simp add: compute_metrics_def try_except_def split: sum.splits)

theorem compute_metrics_guarded_witness:
  "avg_clustering_coeff (compute_metrics no_library two_triangles) = None \<and>
   global_permeability (compute_metrics no_library two_triangles) = Some 1 \<and>
   degree_assortativity (compute_metrics no_library two_triangles) = Some 0 \<and>
   gini_edge_betweenness (compute_metrics no_library two_triangles) = Some 0"
proof -
  have g: "gini_coefficient [1, 1, 1] = Inr 0"
    by (simp add: gini_coefficient_def amin_def arange_def upto.simps)
  from compute_metrics_guarded [of no_library two_triangles] show ?thesis
    by (simp add: no_library_def and_then_def g)
qed

section \<open>Properties of the entropy weights\<close>






















section \<open>Properties of the TRVI\<close>






text \<open>The table of three tracts: its complete rows and their physical sub-index.\<close>

lemma dropna_three: "dropna three_tracts =
   [\<lparr>row_GEOID = 1, row_income = 30000, row_permeability = 1 / 2,
               row_clustering = 1 / 4, row_assortativity = 0, row_gini = 1 / 3\<rparr>,
    \<lparr>row_GEOID = 2, row_income = 50000, row_permeability = 1 / 2,
               row_clustering = 1 / 4, row_assortativity = 0, row_gini = 1 / 3\<rparr>]"
  by (simp add: dropna_def three_tracts_def List.map_filter_simps complete_case_def)

lemma ent0: "entropy_of 2 [0, 0] = Fin 0"
  by (simp add: entropy_of_def series_sum_def np_sum_def)

lemma ent1: "entropy_of 2 [1, 1] = Fin 1"
  by (simp add: entropy_of_def series_sum_def np_sum_def ln_div)

lemma ent0': "entropy_of (Suc (Suc 0)) [0, 0] = Fin 0"
  using ent0 by (simp only: numeral_2_eq_2)

lemma ent1': "entropy_of (Suc (Suc 0)) [1, 1] = Fin 1"
  using ent1 by (simp only: numeral_2_eq_2)

lemma utri_three: "UTRI_physical_column (dropna three_tracts) = Inr [Fin 0, Fin 0]"
  by (simp add: dropna_three UTRI_physical_column_def df_processed_def and_then_def
        minmax_fit_transform_def weights_of_def ent0' ent1' fsub_def np_sum_def UTRI_physical_def
        upt_rec numeral_2_eq_2)


section \<open>Complete-case filtering\<close>

lemma length_standard:
  "standard_fit_transform xs = Inr ys \<Longrightarrow> length ys = length xs"
  by (auto simp: standard_fit_transform_def Let_def split: if_splits)

lemma length_UTRI:
  "UTRI_physical_column d = Inr u \<Longrightarrow> length u = length d"
  by (auto simp: UTRI_physical_column_def UTRI_physical_def and_then_def split: sum.splits)

lemma df_final_rows:
  assumes "df_final df = Inr rows"
  shows "map fst rows = dropna df"
proof -
  from assms obtain utri trvi where
    u: "UTRI_physical_column (dropna df) = Inr utri"
    and t: "TRVI_of (map row_income (dropna df)) utri = Inr trvi"
    and r: "rows = zip (dropna df) trvi"
    by (auto simp: df_final_def Let_def and_then_def split: sum.splits)
  from t obtain a b where
    a: "standard_fit_transform (map Fin (map row_income (dropna df))) = Inr a"
    and b: "standard_fit_transform utri = Inr b"
    and tr: "trvi = map2 (\<lambda>a b. fadd (fneg a) (fneg b)) a b"
    by (auto simp: TRVI_of_def and_then_def split: sum.splits)
  have "length a = length (dropna df)" using length_standard [OF a] by simp
  moreover have "length b = length (dropna df)"
    using length_standard [OF b] length_UTRI [OF u] by simp
  ultimately have "length trvi = length (dropna df)" by (simp add: tr)
  then show ?thesis by (simp add: r)
qed

lemma dropna_removeAll:
  assumes "complete_case r = None"
  shows "dropna (removeAll r df) = dropna df"
  using assms
  by (induction df) (auto simp: dropna_def List.map_filter_simps split: option.splits)

lemma dropna_member:
  assumes "c \<in> set (dropna df)"
  shows "\<exists>x \<in> set df. complete_case x = Some c \<and> row_GEOID c = GEOID x"
proof -
  from assms obtain x where x: "x \<in> set df" "complete_case x = Some c"
    by (auto simp: dropna_def List.map_filter_def)
  then have "row_GEOID c = GEOID x"
    by (auto simp: complete_case_def split: option.splits)
  with x show ?thesis by blast
qed

lemma incomplete_iff:
  "complete_case r = None \<longleftrightarrow>
     csv_global_permeability r = None \<or> csv_avg_clustering_coeff r = None \<or>
     csv_degree_assortativity r = None \<or> csv_gini_edge_betweenness r = None \<or>
     Median_Household_Income r = None"
  by (auto simp: complete_case_def split: option.splits)

text \<open>
  Claim C9.  A tract with an empty cell in any of the four metrics or in income is
  dropped before anything else is computed: the table of complete rows, the normalised
  columns, the entropy weights, the TRVI table and the Moran results are what they are
  for the input without that tract, so none of its values enters them; and the tract has
  no row, hence no TRVI, in the final table.
\<close>

theorem complete_case_filtering:
  assumes "distinct (map GEOID df)" and "r \<in> set df"
      and "csv_global_permeability r = None \<or> csv_avg_clustering_coeff r = None \<or>
           csv_degree_assortativity r = None \<or> csv_gini_edge_betweenness r = None \<or>
           Median_Household_Income r = None"
  shows "dropna df = dropna (removeAll r df) \<and>
         df_processed (dropna df) = df_processed (dropna (removeAll r df)) \<and>
         weights_ewm (dropna df) = weights_ewm (dropna (removeAll r df)) \<and>
         df_final df = df_final (removeAll r df) \<and>
         spatial_analysis moran queen gdf_tracts df
           = spatial_analysis moran queen gdf_tracts (removeAll r df) \<and>
         GEOID r \<notin> row_GEOID ` set (dropna df) \<and>
         (\<forall>rows. df_final df = Inr rows \<longrightarrow>
            map fst rows = dropna df \<and> GEOID r \<notin> (\<lambda>x. row_GEOID (fst x)) ` set rows)"
proof -
  have inc: "complete_case r = None" using assms(3) by (simp add: incomplete_iff)
  have d: "dropna df = dropna (removeAll r df)" using inc by (simp add: dropna_removeAll)
  have f: "df_final df = df_final (removeAll r df)" by (simp add: df_final_def d)
  have s: "spatial_analysis moran queen gdf_tracts df
             = spatial_analysis moran queen gdf_tracts (removeAll r df)"
    by (simp add: spatial_analysis_def f)
  have out: "GEOID r \<notin> row_GEOID ` set (dropna df)"
  proof
    assume "GEOID r \<in> row_GEOID ` set (dropna df)"
    then obtain c where c: "c \<in> set (dropna df)" "row_GEOID c = GEOID r" by auto
    from dropna_member [OF c(1)] obtain x where
      x: "x \<in> set df" "complete_case x = Some c" "row_GEOID c = GEOID x" by blast
    have "inj_on GEOID (set df)" using assms(1) by (simp add: distinct_map)
    then have "x = r" using x(1,3) c(2) assms(2) by (auto dest: inj_onD)
    then show False using x(2) inc by simp
  qed
  have rows: "map fst rows = dropna df \<and> GEOID r \<notin> (\<lambda>x. row_GEOID (fst x)) ` set rows"
    if "df_final df = Inr rows" for rows
  proof -
    have m: "map fst rows = dropna df" using that by (rule df_final_rows)
    then have "(\<lambda>x. row_GEOID (fst x)) ` set rows = row_GEOID ` set (dropna df)"
      by (metis image_image set_map)
    with m out show ?thesis by simp
  qed
  show ?thesis using d f s out rows by simp
qed

theorem complete_case_filtering_witness:
  "distinct (map GEOID three_tracts) \<and> three_tracts ! 2 \<in> set three_tracts \<and>
   Median_Household_Income (three_tracts ! 2) = None \<and>
   csv_global_permeability (three_tracts ! 2) = Some (3 / 4) \<and>
   dropna three_tracts = dropna (removeAll (three_tracts ! 2) three_tracts) \<and>
   df_final three_tracts = df_final (removeAll (three_tracts ! 2) three_tracts) \<and>
   GEOID (three_tracts ! 2) \<notin> row_GEOID ` set (dropna three_tracts)"
proof -
  have a: "distinct (map GEOID three_tracts)" by (simp add: three_tracts_def)
  have b: "three_tracts ! 2 \<in> set three_tracts" by (simp add: three_tracts_def)
  have c: "Median_Household_Income (three_tracts ! 2) = None" by (simp add: three_tracts_def)
  have d: "csv_global_permeability (three_tracts ! 2) = Some (3 / 4)"
    by (simp add: three_tracts_def)
  from complete_case_filtering [OF a b, of Pair id "[1, 2, 3]"] a b c d
  show ?thesis by blast
qed

section \<open>Properties of the Moran loop\<close>

lemma map_of_selected:
  assumes "distinct (map fst cols)" and "(name, col) \<in> set cols"
  shows "map_of [(n, f c). (n, c) \<leftarrow> cols, P c] name = (if P col then Some (f col) else None)"
  using assms
proof (induction cols)
  case Nil
  then show ?case by simp
next
  case (Cons a cols)
  obtain n c where a: "a = (n, c)" by (cases a)
  show ?case
  proof (cases "n = name")
    case True
    then have "c = col" using Cons.prems a by (auto simp: image_iff)
    moreover have "name \<notin> fst ` set [(n, f c). (n, c) \<leftarrow> cols, P c]"
      using Cons.prems(1) a True by (auto simp: image_iff)
    then have "map_of [(n, f c). (n, c) \<leftarrow> cols, P c] name = None"
      by (simp add: map_of_eq_None_iff)
    ultimately show ?thesis using a True by simp
  next
    case False
    then have "(name, col) \<in> set cols" using Cons.prems(2) a by auto
    then show ?thesis using Cons a False by simp
  qed
qed

lemma moran_columns_distinct: "distinct (map fst moran_columns)"
  by (simp add: moran_columns_def)

lemma merge_inner_subset: "set (merge_inner gdf_tracts rows) \<subseteq> set rows"
  by (auto simp: merge_inner_def)

text \<open>
  Claim C1, as amended.  The merged analysis table, from which the weights are built,
  holds only tracts whose five base columns are all non-empty.  For each indicator column
  of that table, Moran's I is computed, on all rows of the table and its weights, exactly
  when the column has no null in the table; a column with a null is skipped and gets no
  result.
\<close>

theorem moran_complete_case:
  assumes "spatial_analysis moran queen gdf_tracts df = Inr res"
  shows "\<exists>rows. df_final df = Inr rows \<and> map fst rows = dropna df \<and>
           fst ` set (merge_inner gdf_tracts rows) \<subseteq> set (dropna df) \<and>
           (\<forall>name col. (name, col) \<in> set moran_columns \<longrightarrow>
              map_of res name =
                (if list_ex isnull (map col (merge_inner gdf_tracts rows)) then None
                 else Some (moran (map col (merge_inner gdf_tracts rows))
                              (queen (map (\<lambda>r. row_GEOID (fst r))
                                        (merge_inner gdf_tracts rows))))))"
proof -
  from assms obtain rows where rows: "df_final df = Inr rows"
    and res: "res = moran_results moran
                      (queen (map (\<lambda>r. row_GEOID (fst r)) (merge_inner gdf_tracts rows)))
                      (merge_inner gdf_tracts rows)"
    by (auto simp: spatial_analysis_def and_then_def Let_def split: sum.splits)
  have m: "map fst rows = dropna df" using rows by (rule df_final_rows)
  have "fst ` set rows = set (dropna df)" using m by (metis set_map)
  then have sub: "fst ` set (merge_inner gdf_tracts rows) \<subseteq> set (dropna df)"
    using merge_inner_subset [of gdf_tracts rows] by blast
  have "map_of res name =
          (if list_ex isnull (map col (merge_inner gdf_tracts rows)) then None
           else Some (moran (map col (merge_inner gdf_tracts rows))
                        (queen (map (\<lambda>r. row_GEOID (fst r)) (merge_inner gdf_tracts rows)))))"
    if "(name, col) \<in> set moran_columns" for name col
    unfolding res moran_results_def
    by (subst map_of_selected [OF moran_columns_distinct that]) simp
  with rows m sub show ?thesis by blast
qed

lemma sqrt_1e8: "sqrt 100000000 = 10000"
  by (rule real_sqrt_unique) simp_all

lemma df_final_three:
  "df_final three_tracts =
     Inr [(\<lparr>row_GEOID = 1, row_income = 30000, row_permeability = 1 / 2,
             row_clustering = 1 / 4, row_assortativity = 0, row_gini = 1 / 3\<rparr>, Fin 1),
          (\<lparr>row_GEOID = 2, row_income = 50000, row_permeability = 1 / 2,
             row_clustering = 1 / 4, row_assortativity = 0, row_gini = 1 / 3\<rparr>, Fin (- 1))]"
  unfolding df_final_def Let_def utri_three and_then_def sum.case
  by (simp add: dropna_three TRVI_of_def and_then_def standard_fit_transform_def mean_def
        variance_def sqrt_1e8 fsub_def)

lemma dropna_first: "dropna (take 1 three_tracts) =
   [\<lparr>row_GEOID = 1, row_income = 30000, row_permeability = 1 / 2,
               row_clustering = 1 / 4, row_assortativity = 0, row_gini = 1 / 3\<rparr>]"
  by (simp add: dropna_def three_tracts_def List.map_filter_simps complete_case_def)

lemma utri_first:
  "UTRI_physical_column
     [\<lparr>row_GEOID = 1 :: int, row_income = 30000, row_permeability = 1 / 2,
       row_clustering = 1 / 4, row_assortativity = 0, row_gini = 1 / 3\<rparr>] = Inr [NaN]"
  by (simp add: UTRI_physical_column_def df_processed_def and_then_def
        minmax_fit_transform_def weights_of_def entropy_of_def series_sum_def np_sum_def fsub_def
        signed_inf_def UTRI_physical_def)

lemma df_final_first:
  "df_final (take 1 three_tracts) =
     Inr [(\<lparr>row_GEOID = 1, row_income = 30000, row_permeability = 1 / 2,
             row_clustering = 1 / 4, row_assortativity = 0, row_gini = 1 / 3\<rparr>, NaN)]"
  unfolding df_final_def Let_def dropna_first utri_first and_then_def sum.case
  by (simp add: TRVI_of_def and_then_def standard_fit_transform_def mean_def variance_def fsub_def)

lemma analysis_first:
  "spatial_analysis Pair id [1, 2, 3] (take 1 three_tracts) =
     Inr [(''Median_Household_Income'', ([Fin 30000], [1])),
          (''global_permeability'', ([Fin (1 / 2)], [1])),
          (''avg_clustering_coeff'', ([Fin (1 / 4)], [1])),
          (''degree_assortativity'', ([Fin 0], [1])),
          (''gini_edge_betweenness'', ([Fin (1 / 3)], [1]))]"
  unfolding spatial_analysis_def df_final_first and_then_def sum.case
  by (simp add: merge_inner_def moran_results_def moran_columns_def Let_def)

theorem moran_complete_case_witness:
  "spatial_analysis Pair id [1, 2, 3] (take 1 three_tracts) =
     Inr [(''Median_Household_Income'', ([Fin 30000], [1])),
          (''global_permeability'', ([Fin (1 / 2)], [1])),
          (''avg_clustering_coeff'', ([Fin (1 / 4)], [1])),
          (''degree_assortativity'', ([Fin 0], [1])),
          (''gini_edge_betweenness'', ([Fin (1 / 3)], [1]))] \<and>
   (\<exists>rows. df_final (take 1 three_tracts) = Inr rows \<and>
      map fst rows = dropna (take 1 three_tracts) \<and>
      fst ` set (merge_inner [1, 2, 3] rows) \<subseteq> set (dropna (take 1 three_tracts)))"
  using moran_complete_case [OF analysis_first] analysis_first by blast

text \<open>
  Claim C1 as stated has the statistic of an indicator computed over the tracts with a
  value for that indicator.  Tract 3 of the example table has a permeability but no
  income: it is left out of the statistic and of the weights of every indicator,
  permeability included.  (\<open>moran\<close> and \<open>queen\<close> here return their arguments.)
\<close>

theorem spatial_analysis_three_tracts:
  "spatial_analysis Pair id [1, 2, 3] three_tracts =
     Inr [(''Median_Household_Income'', ([Fin 30000, Fin 50000], [1, 2])),
          (''global_permeability'', ([Fin (1 / 2), Fin (1 / 2)], [1, 2])),
          (''avg_clustering_coeff'', ([Fin (1 / 4), Fin (1 / 4)], [1, 2])),
          (''degree_assortativity'', ([Fin 0, Fin 0], [1, 2])),
          (''gini_edge_betweenness'', ([Fin (1 / 3), Fin (1 / 3)], [1, 2])),
          (''TRVI'', ([Fin 1, Fin (- 1)], [1, 2]))]"
  unfolding spatial_analysis_def df_final_three and_then_def sum.case
  by (simp add: merge_inner_def moran_results_def moran_columns_def Let_def)

end
